theory Spec2Isabelle
  imports Main
begin

section \<open>The pipeline-step template\<close>

text \<open>
  The repository's one piece of code is a Jinja2 template that renders a pipeline-step
  function from a rendering context. The template is embedded as a function from the
  context to the rendered text: every \<^verbatim>\<open>{% if %}\<close> is an \<open>if\<close>, every
  \<^verbatim>\<open>{% for %}\<close> a traversal of the list with the one-based \<^verbatim>\<open>loop.index\<close>, every
  \<^verbatim>\<open>{{ e }}\<close> the text of \<open>e\<close>, and the literal text between the tags is kept
  character by character after whitespace control: a tag written \<^verbatim>\<open>{%-\<close> removes the
  whitespace (line breaks included) that ends the text before it, a tag written
  \<^verbatim>\<open>-%}\<close> the whitespace that starts the text after it. The environment is Jinja2's
  default one: blocks are neither trimmed nor left-stripped, the single line break that
  ends the template file is dropped, an undefined value renders as the empty text and
  differs from every string, and nothing is escaped.
\<close>

subsection \<open>Characters that a string literal cannot hold\<close>

abbreviation single_quote :: string where
  "single_quote \<equiv> [CHR 0x27]"

abbreviation triple_quote :: string where
  "triple_quote \<equiv> [CHR 0x27, CHR 0x27, CHR 0x27]"

abbreviation backslash :: string where
  "backslash \<equiv> [CHR 0x5C]"

subsection \<open>Expressions and filters of the template language\<close>

text \<open>\<^verbatim>\<open>xs[i]\<close>: subscripting a list out of range gives the undefined value.\<close>

definition subscript :: "'a list \<Rightarrow> nat \<Rightarrow> 'a option" where
  "subscript xs i = (if i < length xs then Some (xs ! i) else None)"

text \<open>\<^verbatim>\<open>{{ e }}\<close>: the undefined value prints as the empty text.\<close>

fun emit :: "string option \<Rightarrow> string" where
  "emit None = []"
| "emit (Some s) = s"

text \<open>\<^verbatim>\<open>xs|join(sep)\<close>.\<close>

fun join_filter :: "string \<Rightarrow> string list \<Rightarrow> string" where
  "join_filter sep [] = []"
| "join_filter sep [x] = x"
| "join_filter sep (x # y # ys) = x @ sep @ join_filter sep (y # ys)"

text \<open>\<^verbatim>\<open>{{ loop.index }}\<close> prints a positive integer in decimal.\<close>

definition digit :: "nat \<Rightarrow> char" where
  "digit d = ''0123456789'' ! d"

fun show_nat :: "nat \<Rightarrow> string" where
  "show_nat n = (if n < 10 then [digit n] else show_nat (n div 10) @ [digit (n mod 10)])"

text \<open>
  \<^verbatim>\<open>{% for x in xs %} body {% endfor %}\<close>: the body is rendered once per element, in list
  order, with \<^verbatim>\<open>loop.index\<close> counting from 1.
\<close>

definition for_loop :: "(nat \<Rightarrow> 'a \<Rightarrow> string) \<Rightarrow> 'a list \<Rightarrow> string" where
  "for_loop body xs = concat (map (\<lambda>(index, x). body index x) (enumerate 1 xs))"

subsection \<open>The rendering context\<close>

text \<open>
  The ten variables the template reads. A context may hold further variables (the
  extension of the record); the template never looks at them.
\<close>

record render_context =
  step_name :: string
  parameters_names :: "string list"
  parameters_types :: "string list"
  autosnapshot :: bool
  in_variables :: "string list"
  out_variables :: "string list"
  function_body :: "string list"
  pipeline_name :: string
  nb_path :: string
  marshal_path :: string

subsection \<open>The template, section by section\<close>

text \<open>Lines 1 to 5: the \<^verbatim>\<open>def\<close> line.\<close>

definition step_signature :: "'a render_context_scheme \<Rightarrow> string" where
  \<open>step_signature c =
     ''def '' @ step_name c @ ''('' @
     for_loop (\<lambda>index arg.
         arg @ '': '' @ emit (subscript (parameters_types c) (index - 1)) @
         (if index < length (parameters_names c) then '','' else []))
       (parameters_names c) @
     ''):''\<close>

text \<open>Lines 6 to 14: the \<^verbatim>\<open>pass\<close> branch, or else the pipeline-parameters block.\<close>

definition kale_pipeline_parameters_block :: "'a render_context_scheme \<Rightarrow> string" where
  \<open>kale_pipeline_parameters_block c =
     (if \<not> autosnapshot c \<and> length (in_variables c) = 0 \<and> length (out_variables c) = 0
          \<and> length (function_body c) = 0
      then ''\<newline>    pass''
      else if length (parameters_names c) > 0
      then ''\<newline>    _kale_pipeline_parameters_block = '' @ triple_quote @
           for_loop (\<lambda>index arg.
               ''\<newline>    '' @
               (if subscript (parameters_types c) (index - 1) = Some ''str''
                then arg @ '' = "{}"'' else arg @ '' = {}''))
             (parameters_names c) @
           ''\<newline>    '' @ triple_quote @ ''.format('' @
           join_filter '', '' (parameters_names c) @ '')\<newline>''
      else [])\<close>

text \<open>Lines 15 to 18: the metadata initialisation.\<close>

definition init_metadata :: "'a render_context_scheme \<Rightarrow> string" where
  \<open>init_metadata c =
     (if autosnapshot c \<or> length (in_variables c) > 0 \<or> length (out_variables c) > 0
          \<or> length (function_body c) > 0
      then ''\<newline>    from kale.common import mlmdutils as _kale_mlmdutils'' @
           ''\<newline>    _kale_mlmdutils.init_metadata()\<newline>''
      else [])\<close>

text \<open>Lines 19 to 27: the snapshot taken before the step runs.\<close>

definition snapshot_before :: "'a render_context_scheme \<Rightarrow> string" where
  \<open>snapshot_before c =
     (if autosnapshot c \<and> step_name c \<noteq> ''final_auto_snapshot''
      then ''\<newline>    from kale.common import podutils as _kale_podutils'' @
           ''\<newline>    _kale_mlmdutils.call("link_input_rok_artifacts")'' @
           ''\<newline>    _kale_podutils.snapshot_pipeline_step('' @
           ''\<newline>        "'' @ pipeline_name c @ ''",'' @
           ''\<newline>        "'' @ step_name c @ ''",'' @
           ''\<newline>        "'' @ nb_path c @ ''",'' @
           ''\<newline>        before=True)\<newline>''
      else [])\<close>

text \<open>Lines 29 to 39: the block that loads the step's input variables.\<close>

definition kale_data_loading_block :: "'a render_context_scheme \<Rightarrow> string" where
  \<open>kale_data_loading_block c =
     (if length (in_variables c) > 0
      then ''\<newline>    _kale_data_loading_block = '' @ triple_quote @
           ''\<newline>    # -----------------------DATA LOADING START--------------------------------'' @
           ''\<newline>    from kale.marshal import utils as _kale_marshal_utils'' @
           ''\<newline>    _kale_marshal_utils.set_kale_data_directory("'' @ marshal_path c @ ''")'' @
           for_loop (\<lambda>index in_var.
               ''\<newline>    '' @ in_var @ '' = _kale_marshal_utils.load("'' @ in_var @ ''")'')
             (in_variables c) @
           ''\<newline>    # -----------------------DATA LOADING END----------------------------------'' @
           ''\<newline>    '' @ triple_quote @ ''\<newline>''
      else [])\<close>

text \<open>
  Lines 41 to 45: one block per cell of the step. The \<^verbatim>\<open>indent\<close> filter belongs to
  the template engine and is a parameter, called as the template calls it:
  \<^verbatim>\<open>block|indent(4, True)\<close>.
\<close>

definition kale_code_blocks ::
  "(nat \<Rightarrow> bool \<Rightarrow> string \<Rightarrow> string) \<Rightarrow> 'a render_context_scheme \<Rightarrow> string" where
  \<open>kale_code_blocks indent c =
     for_loop (\<lambda>index block.
         ''\<newline>    _kale_block'' @ show_nat index @ '' = '' @ triple_quote @ ''\<newline>'' @
         indent 4 True block @
         ''\<newline>    '' @ triple_quote @ ''\<newline>'')
       (function_body c)\<close>

text \<open>Lines 46 to 56: the block that saves the step's output variables.\<close>

definition kale_data_saving_block :: "'a render_context_scheme \<Rightarrow> string" where
  \<open>kale_data_saving_block c =
     (if length (out_variables c) > 0
      then ''\<newline>    _kale_data_saving_block = '' @ triple_quote @
           ''\<newline>    # -----------------------DATA SAVING START---------------------------------'' @
           ''\<newline>    from kale.marshal import utils as _kale_marshal_utils'' @
           ''\<newline>    _kale_marshal_utils.set_kale_data_directory("'' @ marshal_path c @ ''")'' @
           for_loop (\<lambda>index out_var.
               ''\<newline>    _kale_marshal_utils.save('' @ out_var @ '', "'' @ out_var @ ''")'')
             (out_variables c) @
           ''\<newline>    # -----------------------DATA SAVING END-----------------------------------'' @
           ''\<newline>    '' @ triple_quote
      else [])\<close>

text \<open>Lines 58 to 73: running the blocks and publishing the HTML artifact.\<close>

definition kale_blocks :: "'a render_context_scheme \<Rightarrow> string" where
  \<open>kale_blocks c =
     (if length (in_variables c) > 0 \<or> length (out_variables c) > 0
          \<or> length (function_body c) > 0
      then ''\<newline>    # run the code blocks inside a jupyter kernel'' @
           ''\<newline>    from kale.common.jputils import run_code as _kale_run_code'' @
           ''\<newline>    from kale.common.kfputils import '' @ backslash @
           ''\<newline>        update_uimetadata as _kale_update_uimetadata'' @
           ''\<newline>    _kale_blocks = ('' @
           (if length (parameters_names c) > 0 then ''_kale_pipeline_parameters_block,'' else []) @
           (if length (in_variables c) > 0 then ''_kale_data_loading_block,'' else []) @
           for_loop (\<lambda>index block.
               ''\<newline>                    _kale_block'' @ show_nat index @ '','')
             (function_body c) @
           ''\<newline>                    '' @
           (if length (out_variables c) > 0 then ''_kale_data_saving_block'' else []) @
           '')'' @
           ''\<newline>    _kale_html_artifact = _kale_run_code(_kale_blocks)'' @
           ''\<newline>    with open("/'' @ step_name c @ ''.html", "w") as f:'' @
           ''\<newline>        f.write(_kale_html_artifact)'' @
           ''\<newline>    _kale_update_uimetadata('' @ single_quote @ step_name c @ single_quote @
           '')\<newline>''
      else [])\<close>

text \<open>Lines 75 to 86: the snapshot taken after the step has run.\<close>

definition snapshot_after :: "'a render_context_scheme \<Rightarrow> string" where
  \<open>snapshot_after c =
     (if autosnapshot c
      then (if step_name c = ''final_auto_snapshot''
            then ''\<newline>    from kale.common import podutils as _kale_podutils'' @
                 ''\<newline>    _kale_mlmdutils.call("link_input_rok_artifacts")''
            else []) @
           ''\<newline>    _rok_snapshot_task = _kale_podutils.snapshot_pipeline_step('' @
           ''\<newline>        "'' @ pipeline_name c @ ''",'' @
           ''\<newline>        "'' @ step_name c @ ''",'' @
           ''\<newline>        "'' @ nb_path c @ ''",'' @
           ''\<newline>        before=False)'' @
           ''\<newline>    _kale_mlmdutils.call("submit_output_rok_artifact", _rok_snapshot_task)\<newline>''
      else [])\<close>

text \<open>Lines 87 to 89: the end of the execution.\<close>

definition mark_execution_complete :: "'a render_context_scheme \<Rightarrow> string" where
  \<open>mark_execution_complete c =
     (if autosnapshot c \<or> length (in_variables c) > 0 \<or> length (out_variables c) > 0
          \<or> length (function_body c) > 0
      then ''\<newline>    _kale_mlmdutils.call("mark_execution_complete")''
      else [])\<close>

text \<open>
  The whole template. Two stretches of literal text lie between sections and survive
  whitespace control: the line break between lines 18 and 19, and the two line breaks
  between lines 56 and 58.
\<close>

definition render ::
  "(nat \<Rightarrow> bool \<Rightarrow> string \<Rightarrow> string) \<Rightarrow> 'a render_context_scheme \<Rightarrow> string" where
  \<open>render indent c =
     step_signature c @
     kale_pipeline_parameters_block c @
     init_metadata c @
     ''\<newline>'' @
     snapshot_before c @
     kale_data_loading_block c @
     kale_code_blocks indent c @
     kale_data_saving_block c @
     ''\<newline>\<newline>'' @
     kale_blocks c @
     snapshot_after c @
     mark_execution_complete c\<close>

subsection \<open>Example contexts\<close>

text \<open>
  The engine's \<^verbatim>\<open>indent\<close> filter on a text of one line: the line is shifted by
  \<open>width\<close> blanks when \<open>first\<close> is set. It stands for the filter in the examples,
  whose blocks are one line long.
\<close>

definition indent_one_line :: "nat \<Rightarrow> bool \<Rightarrow> string \<Rightarrow> string" where
  "indent_one_line width first s = (if first then replicate width (CHR '' '') else []) @ s"

text \<open>A step with parameters, an input, an output, one cell of code, and snapshots.\<close>

definition kid2_step :: render_context where
  \<open>kid2_step =
    \<lparr>step_name = ''kid2'',
     parameters_names = [''CANDIES'', ''GREETING''],
     parameters_types = [''int'', ''str''],
     autosnapshot = True,
     in_variables = [''kid1''],
     out_variables = [''kid2''],
     function_body = [''kid2 = get_handful("Jill", CANDIES - kid1)''],
     pipeline_name = ''candybag'',
     nb_path = ''/home/jovyan/candies.ipynb'',
     marshal_path = ''/marshal''\<rparr>\<close>

text \<open>A step with a parameter and nothing to run.\<close>

definition idle_step :: render_context where
  \<open>idle_step =
    \<lparr>step_name = ''idle'',
     parameters_names = [''CANDIES''],
     parameters_types = [''int''],
     autosnapshot = False,
     in_variables = [],
     out_variables = [],
     function_body = [],
     pipeline_name = ''candybag'',
     nb_path = ''/home/jovyan/candies.ipynb'',
     marshal_path = ''/marshal''\<rparr>\<close>

text \<open>The step that only takes the final snapshot.\<close>

definition final_step :: render_context where
  \<open>final_step =
    \<lparr>step_name = ''final_auto_snapshot'',
     parameters_names = [],
     parameters_types = [],
     autosnapshot = True,
     in_variables = [],
     out_variables = [],
     function_body = [],
     pipeline_name = ''candybag'',
     nb_path = ''/home/jovyan/candies.ipynb'',
     marshal_path = ''/marshal''\<rparr>\<close>

text \<open>A step that saves a variable and has neither parameters, inputs nor code.\<close>

definition saving_step :: render_context where
  \<open>saving_step =
    \<lparr>step_name = ''keep'',
     parameters_names = [],
     parameters_types = [],
     autosnapshot = False,
     in_variables = [],
     out_variables = [''x''],
     function_body = [],
     pipeline_name = ''candybag'',
     nb_path = ''/home/jovyan/candies.ipynb'',
     marshal_path = ''/marshal''\<rparr>\<close>

section \<open>The Kale tutorial notebook\<close>

text \<open>
  The notebook is a JSON document whose \<^verbatim>\<open>cells\<close> array holds markdown and code
  cells. Of each cell the model keeps what the tagging convention reads: the
  \<^verbatim>\<open>cell_type\<close> and the \<^verbatim>\<open>tags\<close> array of its \<^verbatim>\<open>metadata\<close> (\<open>None\<close> where
  the metadata object has no \<^verbatim>\<open>tags\<close> key). The cells stand in the order of the file.
\<close>

datatype cell_type = Markdown | Code

record cell =
  cell_type :: cell_type
  metadata_tags :: "string list option"

definition cells :: "cell list" where
  "cells =
    [\<lparr>cell_type = Markdown, metadata_tags = None\<rparr>,
     \<lparr>cell_type = Markdown, metadata_tags = None\<rparr>,
     \<lparr>cell_type = Code, metadata_tags = Some [''imports'']\<rparr>,
     \<lparr>cell_type = Markdown, metadata_tags = None\<rparr>,
     \<lparr>cell_type = Code, metadata_tags = Some [''pipeline-parameters'']\<rparr>,
     \<lparr>cell_type = Markdown, metadata_tags = None\<rparr>,
     \<lparr>cell_type = Code, metadata_tags = Some [''functions'']\<rparr>,
     \<lparr>cell_type = Markdown, metadata_tags = None\<rparr>,
     \<lparr>cell_type = Code, metadata_tags = Some [''block:sack'']\<rparr>,
     \<lparr>cell_type = Markdown, metadata_tags = None\<rparr>,
     \<lparr>cell_type = Code, metadata_tags = Some [''block:kid1'', ''prev:sack'']\<rparr>,
     \<lparr>cell_type = Markdown, metadata_tags = None\<rparr>,
     \<lparr>cell_type = Code, metadata_tags = Some [''block:kid2'', ''prev:kid1'']\<rparr>,
     \<lparr>cell_type = Markdown, metadata_tags = None\<rparr>,
     \<lparr>cell_type = Code, metadata_tags = Some [''block:kid3'', ''prev:kid2'']\<rparr>,
     \<lparr>cell_type = Markdown, metadata_tags = None\<rparr>,
     \<lparr>cell_type = Code, metadata_tags = None\<rparr>]"

text \<open>The tags of a cell; a cell without a \<^verbatim>\<open>tags\<close> key has none.\<close>

fun tags_of :: "cell \<Rightarrow> string list" where
  "tags_of c = (case metadata_tags c of None \<Rightarrow> [] | Some ts \<Rightarrow> ts)"

definition code_cells :: "cell list \<Rightarrow> cell list" where
  "code_cells cs = filter (\<lambda>c. cell_type c = Code) cs"

subsection \<open>The tagging convention\<close>

text \<open>
  The five shapes of a tag, as the tutorial lists them. A \<^verbatim>\<open>block:\<close> or \<^verbatim>\<open>prev:\<close> tag
  carries a name, the text after the colon, which is not empty.
\<close>

datatype tag = Imports | Pipeline_Parameters | Functions | Block string | Prev string

definition named :: "string \<Rightarrow> string \<Rightarrow> string option" where
  "named kind t =
     (if length kind < length t \<and> take (length kind) t = kind
      then Some (drop (length kind) t) else None)"

definition read_tag :: "string \<Rightarrow> tag option" where
  "read_tag t =
     (if t = ''imports'' then Some Imports
      else if t = ''pipeline-parameters'' then Some Pipeline_Parameters
      else if t = ''functions'' then Some Functions
      else case named ''block:'' t of Some n \<Rightarrow> Some (Block n)
      | None \<Rightarrow> (case named ''prev:'' t of Some n \<Rightarrow> Some (Prev n) | None \<Rightarrow> None))"

definition well_shaped :: "string \<Rightarrow> bool" where
  "well_shaped t = (case read_tag t of Some _ \<Rightarrow> True | None \<Rightarrow> False)"

text \<open>The step names a cell declares, and the step names it depends on.\<close>

definition block_names :: "cell \<Rightarrow> string list" where
  "block_names c = List.map_filter (named ''block:'') (tags_of c)"

definition prev_names :: "cell \<Rightarrow> string list" where
  "prev_names c = List.map_filter (named ''prev:'') (tags_of c)"

text \<open>
  Every \<^verbatim>\<open>prev:\<close> name of a cell is a \<^verbatim>\<open>block:\<close> name of a cell before it: the cells
  are walked in order, \<open>seen\<close> holding the names declared so far.
\<close>

fun declared_before :: "string list \<Rightarrow> cell list \<Rightarrow> bool" where
  "declared_before seen [] = True"
| "declared_before seen (c # cs) =
     (list_all (\<lambda>p. p \<in> set seen) (prev_names c)
      \<and> declared_before (seen @ block_names c) cs)"

text \<open>The dependency edges: a step, and a step it comes after.\<close>

definition dependencies :: "cell list \<Rightarrow> (string \<times> string) list" where
  "dependencies cs = concat (map (\<lambda>c. List.product (block_names c) (prev_names c)) cs)"

section \<open>Properties of the template\<close>

subsection \<open>Loops and filters\<close>

lemma enumerate_nth_upt: "enumerate n xs = map (\<lambda>i. (n + i, xs ! i)) [0..<length xs]"
  by (rule nth_equalityI) (simp_all add: nth_enumerate_eq)

lemma for_loop_Nil: "for_loop body [] = []"
  by (simp add: for_loop_def)

lemma for_loop_by_index:
  "for_loop body xs = concat (map (\<lambda>i. body (Suc i) (xs ! i)) [0..<length xs])"
  by (simp add: for_loop_def enumerate_nth_upt comp_def)

lemma for_loop_by_element:
  "for_loop (\<lambda>index. body) xs = concat (map body xs)"
proof -
  have "concat (map (\<lambda>(index, x). body x) (enumerate n xs)) = concat (map body xs)" for n
    by (induction xs arbitrary: n) simp_all
  then show ?thesis by (simp add: for_loop_def)
qed

lemma for_loop_by_number:
  "for_loop (\<lambda>index x. body index) xs = concat (map body [1..<Suc (length xs)])"
proof -
  have "map (\<lambda>(index, x). body index) (enumerate 1 xs) = map body (map fst (enumerate 1 xs))"
    by (simp only: map_map comp_def case_prod_unfold)
  also have "\<dots> = map body [1..<Suc (length xs)]"
    by (simp only: map_fst_enumerate plus_1_eq_Suc)
  finally show ?thesis by (simp only: for_loop_def)
qed

lemma separated_loop:
  "xs = [] \<or> n + length xs = Suc m \<Longrightarrow>
   concat (map (\<lambda>(index, x). g index x @ (if index < m then sep else [])) (enumerate n xs))
     = join_filter sep (map (\<lambda>(index, x). g index x) (enumerate n xs))"
proof (induction xs arbitrary: n)
  case Nil
  then show ?case by simp
next
  case (Cons x xs)
  show ?case
  proof (cases xs)
    case Nil
    with Cons.prems show ?thesis by simp
  next
    case (Cons y ys)
    with Cons.prems have "n < m" and "Suc n + length xs = Suc m" by simp_all
    with Cons.IH [of "Suc n"] Cons show ?thesis by simp
  qed
qed

lemma for_loop_separated:
  "for_loop (\<lambda>index x. g index x @ (if index < length xs then sep else [])) xs
     = join_filter sep (map (\<lambda>i. g (Suc i) (xs ! i)) [0..<length xs])"
proof -
  have "for_loop (\<lambda>index x. g index x @ (if index < length xs then sep else [])) xs
      = join_filter sep (map (\<lambda>(index, x). g index x) (enumerate 1 xs))"
    unfolding for_loop_def by (rule separated_loop) simp
  then show ?thesis by (simp add: enumerate_nth_upt comp_def)
qed

lemma emit_subscript:
  "emit (subscript xs i) = (if i < length xs then xs ! i else [])"
  by (simp add: subscript_def)

subsection \<open>The text of each section\<close>

text \<open>
  A section of the template is emitted when its text is not empty. The lemmas below
  give the text of each section with its loops unfolded over the list they traverse.
\<close>

lemma step_signature_joined:
  \<open>step_signature c =
     ''def '' @ step_name c @ ''('' @
     join_filter '',''
       (map (\<lambda>i. parameters_names c ! i @ '': '' @
                 (if i < length (parameters_types c) then parameters_types c ! i else []))
          [0..<length (parameters_names c)]) @
     ''):''\<close>
proof -
  have \<open>(\<lambda>index arg. arg @ '': '' @ emit (subscript (parameters_types c) (index - 1)) @
           (if index < length (parameters_names c) then '','' else []))
      = (\<lambda>index arg. (arg @ '': '' @ emit (subscript (parameters_types c) (index - 1))) @
           (if index < length (parameters_names c) then '','' else []))\<close>
    by simp
  then show ?thesis
    unfolding step_signature_def
    by (simp only: for_loop_separated) (simp add: emit_subscript)
qed

lemma annotated_zip:
  \<open>length ns \<le> length ts \<Longrightarrow>
   map (\<lambda>i. ns ! i @ '': '' @ (if i < length ts then ts ! i else [])) [0..<length ns]
     = map (\<lambda>(a, t). a @ '': '' @ t) (zip ns ts)\<close>
  by (rule nth_equalityI) simp_all

lemma parameters_block_text:
  assumes \<open>autosnapshot c \<or> in_variables c \<noteq> [] \<or> out_variables c \<noteq> [] \<or> function_body c \<noteq> []\<close>
    and \<open>parameters_names c \<noteq> []\<close>
  shows \<open>kale_pipeline_parameters_block c =
     ''\<newline>    _kale_pipeline_parameters_block = '' @ triple_quote @
     concat (map (\<lambda>i. ''\<newline>    '' @ parameters_names c ! i @
                    (if i < length (parameters_types c) \<and> parameters_types c ! i = ''str''
                     then '' = "{}"'' else '' = {}''))
       [0..<length (parameters_names c)]) @
     ''\<newline>    '' @ triple_quote @ ''.format('' @
     join_filter '', '' (parameters_names c) @ '')\<newline>''\<close>
proof -
  have line: \<open>(if subscript (parameters_types c) i = Some ''str'' then a @ '' = "{}"'' else a @ '' = {}'')
      = a @ (if i < length (parameters_types c) \<and> parameters_types c ! i = ''str''
             then '' = "{}"'' else '' = {}'')\<close> for i a
    by (simp add: subscript_def)
  from assms show ?thesis
    unfolding kale_pipeline_parameters_block_def for_loop_by_index line
    by auto
qed

lemma parameters_zip:
  \<open>length ns \<le> length ts \<Longrightarrow>
   map (\<lambda>i. ''\<newline>    '' @ ns ! i @
          (if i < length ts \<and> ts ! i = ''str'' then '' = "{}"'' else '' = {}''))
     [0..<length ns]
   = map (\<lambda>(arg, type). ''\<newline>    '' @ arg @ (if type = ''str'' then '' = "{}"'' else '' = {}''))
       (zip ns ts)\<close>
  by (rule nth_equalityI) simp_all

lemma parameters_block_absent:
  \<open>autosnapshot c \<or> in_variables c \<noteq> [] \<or> out_variables c \<noteq> [] \<or> function_body c \<noteq> [] \<Longrightarrow>
   parameters_names c = [] \<Longrightarrow> kale_pipeline_parameters_block c = []\<close>
  by (auto simp: kale_pipeline_parameters_block_def)

lemma init_metadata_emitted:
  \<open>init_metadata c \<noteq> [] \<longleftrightarrow>
   autosnapshot c \<or> in_variables c \<noteq> [] \<or> out_variables c \<noteq> [] \<or> function_body c \<noteq> []\<close>
  by (simp add: init_metadata_def)

lemma mark_execution_complete_emitted:
  \<open>mark_execution_complete c \<noteq> [] \<longleftrightarrow>
   autosnapshot c \<or> in_variables c \<noteq> [] \<or> out_variables c \<noteq> [] \<or> function_body c \<noteq> []\<close>
  by (simp add: mark_execution_complete_def)

lemma snapshot_before_emitted:
  \<open>snapshot_before c \<noteq> [] \<longleftrightarrow> autosnapshot c \<and> step_name c \<noteq> ''final_auto_snapshot''\<close>
  by (simp add: snapshot_before_def)

lemma snapshot_after_emitted:
  \<open>snapshot_after c \<noteq> [] \<longleftrightarrow> autosnapshot c\<close>
  by (simp add: snapshot_after_def)

lemma data_loading_text:
  \<open>in_variables c \<noteq> [] \<Longrightarrow>
   kale_data_loading_block c =
     ''\<newline>    _kale_data_loading_block = '' @ triple_quote @
     ''\<newline>    # -----------------------DATA LOADING START--------------------------------'' @
     ''\<newline>    from kale.marshal import utils as _kale_marshal_utils'' @
     ''\<newline>    _kale_marshal_utils.set_kale_data_directory("'' @ marshal_path c @ ''")'' @
     concat (map (\<lambda>name. ''\<newline>    '' @ name @ '' = _kale_marshal_utils.load("'' @ name @ ''")'')
       (in_variables c)) @
     ''\<newline>    # -----------------------DATA LOADING END----------------------------------'' @
     ''\<newline>    '' @ triple_quote @ ''\<newline>''\<close>
  by (simp add: kale_data_loading_block_def for_loop_by_element)

lemma code_blocks_text:
  \<open>kale_code_blocks indent c =
     concat (map (\<lambda>i. ''\<newline>    _kale_block'' @ show_nat (Suc i) @ '' = '' @ triple_quote @ ''\<newline>'' @
                    indent 4 True (function_body c ! i) @
                    ''\<newline>    '' @ triple_quote @ ''\<newline>'')
       [0..<length (function_body c)])\<close>
  by (simp add: kale_code_blocks_def for_loop_by_index)

lemma data_saving_text:
  \<open>out_variables c \<noteq> [] \<Longrightarrow>
   kale_data_saving_block c =
     ''\<newline>    _kale_data_saving_block = '' @ triple_quote @
     ''\<newline>    # -----------------------DATA SAVING START---------------------------------'' @
     ''\<newline>    from kale.marshal import utils as _kale_marshal_utils'' @
     ''\<newline>    _kale_marshal_utils.set_kale_data_directory("'' @ marshal_path c @ ''")'' @
     concat (map (\<lambda>name. ''\<newline>    _kale_marshal_utils.save('' @ name @ '', "'' @ name @ ''")'')
       (out_variables c)) @
     ''\<newline>    # -----------------------DATA SAVING END-----------------------------------'' @
     ''\<newline>    '' @ triple_quote\<close>
  by (simp add: kale_data_saving_block_def for_loop_by_element)

lemma kale_blocks_text:
  \<open>in_variables c \<noteq> [] \<or> out_variables c \<noteq> [] \<or> function_body c \<noteq> [] \<Longrightarrow>
   kale_blocks c =
     ''\<newline>    # run the code blocks inside a jupyter kernel'' @
     ''\<newline>    from kale.common.jputils import run_code as _kale_run_code'' @
     ''\<newline>    from kale.common.kfputils import '' @ backslash @
     ''\<newline>        update_uimetadata as _kale_update_uimetadata'' @
     ''\<newline>    _kale_blocks = ('' @
     (if parameters_names c \<noteq> [] then ''_kale_pipeline_parameters_block,'' else []) @
     (if in_variables c \<noteq> [] then ''_kale_data_loading_block,'' else []) @
     concat (map (\<lambda>k. ''\<newline>                    _kale_block'' @ show_nat k @ '','')
       [1..<Suc (length (function_body c))]) @
     ''\<newline>                    '' @
     (if out_variables c \<noteq> [] then ''_kale_data_saving_block'' else []) @
     '')'' @
     ''\<newline>    _kale_html_artifact = _kale_run_code(_kale_blocks)'' @
     ''\<newline>    with open("/'' @ step_name c @ ''.html", "w") as f:'' @
     ''\<newline>        f.write(_kale_html_artifact)'' @
     ''\<newline>    _kale_update_uimetadata('' @ single_quote @ step_name c @ single_quote @ '')\<newline>''\<close>
  unfolding kale_blocks_def for_loop_by_number by auto

lemma kale_blocks_absent:
  \<open>in_variables c = [] \<Longrightarrow> out_variables c = [] \<Longrightarrow> function_body c = [] \<Longrightarrow>
   kale_blocks c = []\<close>
  by (simp add: kale_blocks_def)

lemma idle_rendering:
  \<open>\<not> autosnapshot c \<Longrightarrow> in_variables c = [] \<Longrightarrow> out_variables c = [] \<Longrightarrow>
   function_body c = [] \<Longrightarrow>
   render indent c = step_signature c @ ''\<newline>    pass\<newline>\<newline>\<newline>''\<close>
  by (simp add: render_def kale_pipeline_parameters_block_def init_metadata_def
      snapshot_before_def kale_data_loading_block_def kale_code_blocks_def for_loop_Nil
      kale_data_saving_block_def kale_blocks_def snapshot_after_def mark_execution_complete_def)

subsection \<open>Where a section stands in the output\<close>

lemma render_after_signature:
  \<open>\<exists>rest. render indent c = step_signature c @ ''\<newline>'' @ rest\<close>
proof (cases \<open>kale_pipeline_parameters_block c = []\<close>)
  case True
  show ?thesis
  proof (cases \<open>init_metadata c = []\<close>)
    case True
    with \<open>kale_pipeline_parameters_block c = []\<close> show ?thesis
      by (simp add: render_def)
  next
    case False
    then obtain r where \<open>init_metadata c = ''\<newline>'' @ r\<close>
      by (auto simp: init_metadata_def split: if_splits)
    with \<open>kale_pipeline_parameters_block c = []\<close> show ?thesis
      by (simp add: render_def)
  qed
next
  case False
  then obtain r where \<open>kale_pipeline_parameters_block c = ''\<newline>'' @ r\<close>
    by (auto simp: kale_pipeline_parameters_block_def split: if_splits)
  then show ?thesis
    by (simp add: render_def)
qed

lemma render_from_parameters:
  \<open>render indent c =
     step_signature c @ kale_pipeline_parameters_block c @
     (init_metadata c @ ''\<newline>'' @ snapshot_before c @ kale_data_loading_block c @
      kale_code_blocks indent c @ kale_data_saving_block c @ ''\<newline>\<newline>'' @ kale_blocks c @
      snapshot_after c @ mark_execution_complete c)\<close>
  by (simp add: render_def)

lemma render_from_init:
  \<open>render indent c =
     step_signature c @ kale_pipeline_parameters_block c @ init_metadata c @
     (''\<newline>'' @ snapshot_before c @ kale_data_loading_block c @
      kale_code_blocks indent c @ kale_data_saving_block c @ ''\<newline>\<newline>'' @ kale_blocks c @
      snapshot_after c @ mark_execution_complete c)\<close>
  by (simp add: render_def)

lemma render_around_loading:
  \<open>render indent c =
     (step_signature c @ kale_pipeline_parameters_block c @ init_metadata c @ ''\<newline>'' @
      snapshot_before c) @
     kale_data_loading_block c @
     (kale_code_blocks indent c @ kale_data_saving_block c @ ''\<newline>\<newline>'' @ kale_blocks c @
      snapshot_after c @ mark_execution_complete c)\<close>
  by (simp add: render_def)

lemma render_around_saving:
  \<open>render indent c =
     (step_signature c @ kale_pipeline_parameters_block c @ init_metadata c @ ''\<newline>'' @
      snapshot_before c @ kale_data_loading_block c @ kale_code_blocks indent c) @
     kale_data_saving_block c @
     (''\<newline>\<newline>'' @ kale_blocks c @ snapshot_after c @ mark_execution_complete c)\<close>
  by (simp add: render_def)

lemma render_around_kale_blocks:
  \<open>render indent c =
     (step_signature c @ kale_pipeline_parameters_block c @ init_metadata c @ ''\<newline>'' @
      snapshot_before c @ kale_data_loading_block c @ kale_code_blocks indent c @
      kale_data_saving_block c @ ''\<newline>\<newline>'') @
     kale_blocks c @
     (snapshot_after c @ mark_execution_complete c)\<close>
  by (simp add: render_def)

lemma render_until_mark:
  \<open>render indent c =
     (step_signature c @ kale_pipeline_parameters_block c @ init_metadata c @ ''\<newline>'' @
      snapshot_before c @ kale_data_loading_block c @ kale_code_blocks indent c @
      kale_data_saving_block c @ ''\<newline>\<newline>'' @ kale_blocks c @ snapshot_after c) @
     mark_execution_complete c\<close>
  by (simp add: render_def)

subsection \<open>The rendering of the examples\<close>

lemma kid2_step_sections:
  \<open>step_signature kid2_step = ''def kid2(CANDIES: int,GREETING: str):''\<close>
  \<open>kale_pipeline_parameters_block kid2_step =
     ''\<newline>    _kale_pipeline_parameters_block = '' @ triple_quote @
     ''\<newline>    CANDIES = {}'' @
     ''\<newline>    GREETING = "{}"'' @
     ''\<newline>    '' @ triple_quote @ ''.format(CANDIES, GREETING)\<newline>''\<close>
  \<open>init_metadata kid2_step =
     ''\<newline>    from kale.common import mlmdutils as _kale_mlmdutils'' @
     ''\<newline>    _kale_mlmdutils.init_metadata()\<newline>''\<close>
  \<open>kale_data_loading_block kid2_step =
     ''\<newline>    _kale_data_loading_block = '' @ triple_quote @
     ''\<newline>    # -----------------------DATA LOADING START--------------------------------'' @
     ''\<newline>    from kale.marshal import utils as _kale_marshal_utils'' @
     ''\<newline>    _kale_marshal_utils.set_kale_data_directory("/marshal")'' @
     ''\<newline>    kid1 = _kale_marshal_utils.load("kid1")'' @
     ''\<newline>    # -----------------------DATA LOADING END----------------------------------'' @
     ''\<newline>    '' @ triple_quote @ ''\<newline>''\<close>
  \<open>kale_code_blocks indent_one_line kid2_step =
     ''\<newline>    _kale_block1 = '' @ triple_quote @
     ''\<newline>    kid2 = get_handful("Jill", CANDIES - kid1)'' @
     ''\<newline>    '' @ triple_quote @ ''\<newline>''\<close>
  \<open>kale_data_saving_block kid2_step =
     ''\<newline>    _kale_data_saving_block = '' @ triple_quote @
     ''\<newline>    # -----------------------DATA SAVING START---------------------------------'' @
     ''\<newline>    from kale.marshal import utils as _kale_marshal_utils'' @
     ''\<newline>    _kale_marshal_utils.set_kale_data_directory("/marshal")'' @
     ''\<newline>    _kale_marshal_utils.save(kid2, "kid2")'' @
     ''\<newline>    # -----------------------DATA SAVING END-----------------------------------'' @
     ''\<newline>    '' @ triple_quote\<close>
  \<open>kale_blocks kid2_step =
     ''\<newline>    # run the code blocks inside a jupyter kernel'' @
     ''\<newline>    from kale.common.jputils import run_code as _kale_run_code'' @
     ''\<newline>    from kale.common.kfputils import '' @ backslash @
     ''\<newline>        update_uimetadata as _kale_update_uimetadata'' @
     ''\<newline>    _kale_blocks = (_kale_pipeline_parameters_block,_kale_data_loading_block,'' @
     ''\<newline>                    _kale_block1,'' @
     ''\<newline>                    _kale_data_saving_block)'' @
     ''\<newline>    _kale_html_artifact = _kale_run_code(_kale_blocks)'' @
     ''\<newline>    with open("/kid2.html", "w") as f:'' @
     ''\<newline>        f.write(_kale_html_artifact)'' @
     ''\<newline>    _kale_update_uimetadata('' @ single_quote @ ''kid2'' @ single_quote @ '')\<newline>''\<close>
  by (simp_all add: step_signature_joined parameters_block_text data_loading_text
      data_saving_text kale_code_blocks_def kale_blocks_def init_metadata_def for_loop_by_index
      indent_one_line_def digit_def eval_nat_numeral kid2_step_def)

lemma idle_step_sections:
  \<open>step_signature idle_step = ''def idle(CANDIES: int):''\<close>
  \<open>kale_pipeline_parameters_block idle_step = ''\<newline>    pass''\<close>
  \<open>init_metadata idle_step = []\<close>
  \<open>kale_data_loading_block idle_step = []\<close>
  \<open>kale_code_blocks indent idle_step = []\<close>
  \<open>kale_data_saving_block idle_step = []\<close>
  \<open>kale_blocks idle_step = []\<close>
  \<open>mark_execution_complete idle_step = []\<close>
  by (simp_all add: step_signature_joined kale_pipeline_parameters_block_def
      kale_data_loading_block_def kale_data_saving_block_def kale_code_blocks_def
      kale_blocks_def init_metadata_def mark_execution_complete_def for_loop_Nil idle_step_def)

lemma final_step_sections:
  \<open>step_signature final_step = ''def final_auto_snapshot():''\<close>
  \<open>kale_pipeline_parameters_block final_step = []\<close>
  \<open>init_metadata final_step =
     ''\<newline>    from kale.common import mlmdutils as _kale_mlmdutils'' @
     ''\<newline>    _kale_mlmdutils.init_metadata()\<newline>''\<close>
  \<open>kale_data_loading_block final_step = []\<close>
  \<open>kale_code_blocks indent final_step = []\<close>
  \<open>kale_data_saving_block final_step = []\<close>
  \<open>kale_blocks final_step = []\<close>
  by (simp_all add: step_signature_joined kale_pipeline_parameters_block_def
      kale_data_loading_block_def kale_data_saving_block_def kale_code_blocks_def
      kale_blocks_def init_metadata_def for_loop_Nil final_step_def)

subsection \<open>The marshalling blocks\<close>

text \<open>
  Claim C1. When \<open>in_variables\<close> is not empty, the output contains the data-loading
  block: it sets the kale data directory to \<open>marshal_path\<close> and then, for each name of
  \<open>in_variables\<close> in list order, assigns to the name the result of
  \<^verbatim>\<open>_kale_marshal_utils.load\<close> of the name. When \<open>out_variables\<close> is not empty, the
  output contains the data-saving block: it sets the same directory and then, for each
  name of \<open>out_variables\<close> in list order, calls \<^verbatim>\<open>_kale_marshal_utils.save\<close> on the
  variable and its name.
\<close>

theorem marshalling_blocks:
  \<open>(in_variables c \<noteq> [] \<longrightarrow>
      (\<exists>before after. render indent c =
         before @
        (''\<newline>    _kale_data_loading_block = '' @ triple_quote @
         ''\<newline>    # -----------------------DATA LOADING START--------------------------------'' @
         ''\<newline>    from kale.marshal import utils as _kale_marshal_utils'' @
         ''\<newline>    _kale_marshal_utils.set_kale_data_directory("'' @ marshal_path c @ ''")'' @
         concat (map (\<lambda>name. ''\<newline>    '' @ name @ '' = _kale_marshal_utils.load("'' @ name @ ''")'')
           (in_variables c)) @
         ''\<newline>    # -----------------------DATA LOADING END----------------------------------'' @
         ''\<newline>    '' @ triple_quote @ ''\<newline>'') @
         after))
   \<and> (out_variables c \<noteq> [] \<longrightarrow>
      (\<exists>before after. render indent c =
         before @
        (''\<newline>    _kale_data_saving_block = '' @ triple_quote @
         ''\<newline>    # -----------------------DATA SAVING START---------------------------------'' @
         ''\<newline>    from kale.marshal import utils as _kale_marshal_utils'' @
         ''\<newline>    _kale_marshal_utils.set_kale_data_directory("'' @ marshal_path c @ ''")'' @
         concat (map (\<lambda>name. ''\<newline>    _kale_marshal_utils.save('' @ name @ '', "'' @ name @ ''")'')
           (out_variables c)) @
         ''\<newline>    # -----------------------DATA SAVING END-----------------------------------'' @
         ''\<newline>    '' @ triple_quote) @
         after))\<close>
  (is \<open>(_ \<longrightarrow> ?loading) \<and> (_ \<longrightarrow> ?saving)\<close>)
proof (intro conjI impI)
  assume \<open>in_variables c \<noteq> []\<close>
  from render_around_loading [of indent c, unfolded data_loading_text [OF this]]
  show ?loading by blast
next
  assume \<open>out_variables c \<noteq> []\<close>
  from render_around_saving [of indent c, unfolded data_saving_text [OF this]]
  show ?saving by blast
qed

theorem marshalling_blocks_witness:
  \<open>(\<exists>before after. render indent_one_line kid2_step =
      before @
     (''\<newline>    _kale_data_loading_block = '' @ triple_quote @
      ''\<newline>    # -----------------------DATA LOADING START--------------------------------'' @
      ''\<newline>    from kale.marshal import utils as _kale_marshal_utils'' @
      ''\<newline>    _kale_marshal_utils.set_kale_data_directory("/marshal")'' @
      ''\<newline>    kid1 = _kale_marshal_utils.load("kid1")'' @
      ''\<newline>    # -----------------------DATA LOADING END----------------------------------'' @
      ''\<newline>    '' @ triple_quote @ ''\<newline>'') @
      after)
   \<and> (\<exists>before after. render indent_one_line kid2_step =
      before @
     (''\<newline>    _kale_data_saving_block = '' @ triple_quote @
      ''\<newline>    # -----------------------DATA SAVING START---------------------------------'' @
      ''\<newline>    from kale.marshal import utils as _kale_marshal_utils'' @
      ''\<newline>    _kale_marshal_utils.set_kale_data_directory("/marshal")'' @
      ''\<newline>    _kale_marshal_utils.save(kid2, "kid2")'' @
      ''\<newline>    # -----------------------DATA SAVING END-----------------------------------'' @
      ''\<newline>    '' @ triple_quote) @
      after)\<close>
  using marshalling_blocks [of kid2_step indent_one_line]
  by (simp add: kid2_step_def)

subsection \<open>The \<^verbatim>\<open>def\<close> line\<close>

text \<open>
  Claim C2. The output starts with the \<^verbatim>\<open>def\<close> line of a function named
  \<open>step_name\<close>, followed by a line break. Its parameter list holds the
  \<open>parameters_names\<close> in order, each annotated with the type at the same index of
  \<open>parameters_types\<close> (with nothing, where that list is too short to have one), with a
  comma between two parameters and none after the last; an empty list of names gives
  an empty parameter list. Where the \<^verbatim>\<open>def\<close> line holds no line break of its own,
  it is the first line of the output.
\<close>

theorem step_signature_line:
  \<open>step_signature c =
     ''def '' @ step_name c @ ''('' @
     join_filter '',''
       (map (\<lambda>i. parameters_names c ! i @ '': '' @
                 (if i < length (parameters_types c) then parameters_types c ! i else []))
          [0..<length (parameters_names c)]) @
     ''):''
   \<and> (length (parameters_names c) \<le> length (parameters_types c) \<longrightarrow>
        step_signature c =
          ''def '' @ step_name c @ ''('' @
          join_filter '',''
            (map (\<lambda>(arg, type). arg @ '': '' @ type)
               (zip (parameters_names c) (parameters_types c))) @
          ''):'')
   \<and> (\<exists>rest. render indent c = step_signature c @ ''\<newline>'' @ rest)
   \<and> (CHR ''\<newline>'' \<notin> set (step_signature c) \<longrightarrow>
        takeWhile (\<lambda>x. x \<noteq> CHR ''\<newline>'') (render indent c) = step_signature c)\<close>
  (is \<open>?by_index \<and> (_ \<longrightarrow> ?by_pair) \<and> ?start \<and> (_ \<longrightarrow> ?first_line)\<close>)
proof (intro conjI impI)
  show ?by_index
    by (rule step_signature_joined)
next
  assume \<open>length (parameters_names c) \<le> length (parameters_types c)\<close>
  then show ?by_pair
    by (simp only: step_signature_joined annotated_zip)
next
  show ?start
    by (rule render_after_signature)
next
  assume clean: \<open>CHR ''\<newline>'' \<notin> set (step_signature c)\<close>
  obtain rest where \<open>render indent c = step_signature c @ ''\<newline>'' @ rest\<close>
    using render_after_signature by blast
  with clean show ?first_line
    by (auto simp: takeWhile_tail)
qed

theorem step_signature_line_witness:
  \<open>step_signature kid2_step = ''def kid2(CANDIES: int,GREETING: str):''
   \<and> takeWhile (\<lambda>x. x \<noteq> CHR ''\<newline>'') (render indent_one_line kid2_step)
       = ''def kid2(CANDIES: int,GREETING: str):''\<close>
proof -
  note line = step_signature_line [of kid2_step indent_one_line]
  have sig: \<open>step_signature kid2_step = ''def kid2(CANDIES: int,GREETING: str):''\<close>
    using line by (simp add: kid2_step_def)
  then have \<open>CHR ''\<newline>'' \<notin> set (step_signature kid2_step)\<close>
    by simp
  with line sig show ?thesis
    by simp
qed

subsection \<open>Running the blocks\<close>

text \<open>
  When one of \<open>in_variables\<close>, \<open>out_variables\<close>, \<open>function_body\<close> is not empty, the
  output binds \<^verbatim>\<open>_kale_blocks\<close> to the blocks in the order pipeline-parameters block
  (there when \<open>parameters_names\<close> is not empty), data-loading block (there when
  \<open>in_variables\<close> is not empty), one block per cell in list order, data-saving block
  (there when \<open>out_variables\<close> is not empty), passes it to \<^verbatim>\<open>_kale_run_code\<close>, writes
  the artifact to the file named after the step and updates the UI metadata. When the
  three lists are empty, nothing of this is emitted (\<open>kale_blocks_absent\<close>).
\<close>

lemma kale_blocks_in_output:
  assumes \<open>in_variables c \<noteq> [] \<or> out_variables c \<noteq> [] \<or> function_body c \<noteq> []\<close>
  shows \<open>\<exists>before after. render indent c =
     before @
    (''\<newline>    # run the code blocks inside a jupyter kernel'' @
     ''\<newline>    from kale.common.jputils import run_code as _kale_run_code'' @
     ''\<newline>    from kale.common.kfputils import '' @ backslash @
     ''\<newline>        update_uimetadata as _kale_update_uimetadata'' @
     ''\<newline>    _kale_blocks = ('' @
     (if parameters_names c \<noteq> [] then ''_kale_pipeline_parameters_block,'' else []) @
     (if in_variables c \<noteq> [] then ''_kale_data_loading_block,'' else []) @
     concat (map (\<lambda>k. ''\<newline>                    _kale_block'' @ show_nat k @ '','')
       [1..<Suc (length (function_body c))]) @
     ''\<newline>                    '' @
     (if out_variables c \<noteq> [] then ''_kale_data_saving_block'' else []) @
     '')'' @
     ''\<newline>    _kale_html_artifact = _kale_run_code(_kale_blocks)'' @
     ''\<newline>    with open("/'' @ step_name c @ ''.html", "w") as f:'' @
     ''\<newline>        f.write(_kale_html_artifact)'' @
     ''\<newline>    _kale_update_uimetadata('' @ single_quote @ step_name c @ single_quote @ '')\<newline>'') @
     after\<close>
  using render_around_kale_blocks [of indent c, unfolded kale_blocks_text [OF assms]]
  by blast

text \<open>
  Claim C3. In the parentheses that bind \<^verbatim>\<open>_kale_blocks\<close> every name is followed by
  a comma but the last one, \<^verbatim>\<open>_kale_data_saving_block\<close>. For a step that saves a
  variable and has neither parameters, inputs nor code, the parentheses therefore hold
  one name and no comma, as this rendering shows: read as Python, the emitted code
  binds \<^verbatim>\<open>_kale_blocks\<close> to the block itself, a string, and passes that to
  \<^verbatim>\<open>_kale_run_code\<close>, where the claim has a tuple of the blocks.
\<close>

theorem saving_step_rendering:
  \<open>render indent saving_step =
     ''def keep():'' @
     ''\<newline>    from kale.common import mlmdutils as _kale_mlmdutils'' @
     ''\<newline>    _kale_mlmdutils.init_metadata()\<newline>'' @
     ''\<newline>'' @
     ''\<newline>    _kale_data_saving_block = '' @ triple_quote @
     ''\<newline>    # -----------------------DATA SAVING START---------------------------------'' @
     ''\<newline>    from kale.marshal import utils as _kale_marshal_utils'' @
     ''\<newline>    _kale_marshal_utils.set_kale_data_directory("/marshal")'' @
     ''\<newline>    _kale_marshal_utils.save(x, "x")'' @
     ''\<newline>    # -----------------------DATA SAVING END-----------------------------------'' @
     ''\<newline>    '' @ triple_quote @
     ''\<newline>\<newline>'' @
     ''\<newline>    # run the code blocks inside a jupyter kernel'' @
     ''\<newline>    from kale.common.jputils import run_code as _kale_run_code'' @
     ''\<newline>    from kale.common.kfputils import '' @ backslash @
     ''\<newline>        update_uimetadata as _kale_update_uimetadata'' @
     ''\<newline>    _kale_blocks = ('' @
     ''\<newline>                    _kale_data_saving_block)'' @
     ''\<newline>    _kale_html_artifact = _kale_run_code(_kale_blocks)'' @
     ''\<newline>    with open("/keep.html", "w") as f:'' @
     ''\<newline>        f.write(_kale_html_artifact)'' @
     ''\<newline>    _kale_update_uimetadata('' @ single_quote @ ''keep'' @ single_quote @ '')\<newline>'' @
     ''\<newline>    _kale_mlmdutils.call("mark_execution_complete")''\<close>
proof -
  have \<open>step_signature saving_step = ''def keep():''\<close>
    \<open>kale_pipeline_parameters_block saving_step = []\<close>
    \<open>init_metadata saving_step =
      ''\<newline>    from kale.common import mlmdutils as _kale_mlmdutils'' @
      ''\<newline>    _kale_mlmdutils.init_metadata()\<newline>''\<close>
    \<open>snapshot_before saving_step = []\<close>
    \<open>kale_data_loading_block saving_step = []\<close>
    \<open>kale_code_blocks indent saving_step = []\<close>
    \<open>snapshot_after saving_step = []\<close>
    \<open>mark_execution_complete saving_step = ''\<newline>    _kale_mlmdutils.call("mark_execution_complete")''\<close>
    by (simp_all add: step_signature_joined kale_pipeline_parameters_block_def init_metadata_def
        snapshot_before_def kale_data_loading_block_def kale_code_blocks_def for_loop_Nil
        snapshot_after_def mark_execution_complete_def saving_step_def)
  moreover have \<open>kale_data_saving_block saving_step =
     ''\<newline>    _kale_data_saving_block = '' @ triple_quote @
     ''\<newline>    # -----------------------DATA SAVING START---------------------------------'' @
     ''\<newline>    from kale.marshal import utils as _kale_marshal_utils'' @
     ''\<newline>    _kale_marshal_utils.set_kale_data_directory("/marshal")'' @
     ''\<newline>    _kale_marshal_utils.save(x, "x")'' @
     ''\<newline>    # -----------------------DATA SAVING END-----------------------------------'' @
     ''\<newline>    '' @ triple_quote\<close>
    by (simp add: data_saving_text saving_step_def)
  moreover have \<open>kale_blocks saving_step =
     ''\<newline>    # run the code blocks inside a jupyter kernel'' @
     ''\<newline>    from kale.common.jputils import run_code as _kale_run_code'' @
     ''\<newline>    from kale.common.kfputils import '' @ backslash @
     ''\<newline>        update_uimetadata as _kale_update_uimetadata'' @
     ''\<newline>    _kale_blocks = ('' @
     ''\<newline>                    _kale_data_saving_block)'' @
     ''\<newline>    _kale_html_artifact = _kale_run_code(_kale_blocks)'' @
     ''\<newline>    with open("/keep.html", "w") as f:'' @
     ''\<newline>        f.write(_kale_html_artifact)'' @
     ''\<newline>    _kale_update_uimetadata('' @ single_quote @ ''keep'' @ single_quote @ '')\<newline>''\<close>
    by (simp add: kale_blocks_text saving_step_def)
  ultimately show ?thesis
    by (simp add: render_def)
qed

subsection \<open>The snapshots\<close>

text \<open>
  Claim C4. With \<open>autosnapshot\<close> true the emitted code calls
  \<^verbatim>\<open>snapshot_pipeline_step\<close> with \<open>pipeline_name\<close>, \<open>step_name\<close> and \<open>nb_path\<close>: the
  call with \<^verbatim>\<open>before=True\<close> stands before the code blocks if and only if \<open>step_name\<close>
  is not \<^verbatim>\<open>final_auto_snapshot\<close>, and the call with \<^verbatim>\<open>before=False\<close>, whose result is
  submitted through \<^verbatim>\<open>submit_output_rok_artifact\<close>, always stands after them. With
  \<open>autosnapshot\<close> false neither snapshot section is emitted: the output is made of the
  other sections alone.
\<close>

theorem snapshot_calls:
  \<open>(autosnapshot c \<longrightarrow>
      render indent c =
        step_signature c @ kale_pipeline_parameters_block c @ init_metadata c @ ''\<newline>'' @
        (if step_name c \<noteq> ''final_auto_snapshot''
         then ''\<newline>    from kale.common import podutils as _kale_podutils'' @
              ''\<newline>    _kale_mlmdutils.call("link_input_rok_artifacts")'' @
              ''\<newline>    _kale_podutils.snapshot_pipeline_step('' @
              ''\<newline>        "'' @ pipeline_name c @ ''",'' @
              ''\<newline>        "'' @ step_name c @ ''",'' @
              ''\<newline>        "'' @ nb_path c @ ''",'' @
              ''\<newline>        before=True)\<newline>''
         else []) @
        kale_data_loading_block c @ kale_code_blocks indent c @ kale_data_saving_block c @
        ''\<newline>\<newline>'' @ kale_blocks c @
        (if step_name c = ''final_auto_snapshot''
         then ''\<newline>    from kale.common import podutils as _kale_podutils'' @
              ''\<newline>    _kale_mlmdutils.call("link_input_rok_artifacts")''
         else []) @
        ''\<newline>    _rok_snapshot_task = _kale_podutils.snapshot_pipeline_step('' @
        ''\<newline>        "'' @ pipeline_name c @ ''",'' @
        ''\<newline>        "'' @ step_name c @ ''",'' @
        ''\<newline>        "'' @ nb_path c @ ''",'' @
        ''\<newline>        before=False)'' @
        ''\<newline>    _kale_mlmdutils.call("submit_output_rok_artifact", _rok_snapshot_task)\<newline>'' @
        ''\<newline>    _kale_mlmdutils.call("mark_execution_complete")'')
   \<and> (\<not> autosnapshot c \<longrightarrow>
      snapshot_before c = [] \<and> snapshot_after c = [] \<and>
      render indent c =
        step_signature c @ kale_pipeline_parameters_block c @ init_metadata c @ ''\<newline>'' @
        kale_data_loading_block c @ kale_code_blocks indent c @ kale_data_saving_block c @
        ''\<newline>\<newline>'' @ kale_blocks c @ mark_execution_complete c)
   \<and> (snapshot_before c \<noteq> [] \<longleftrightarrow> autosnapshot c \<and> step_name c \<noteq> ''final_auto_snapshot'')
   \<and> (snapshot_after c \<noteq> [] \<longleftrightarrow> autosnapshot c)\<close>
  (is \<open>(_ \<longrightarrow> ?with_snapshots) \<and> (_ \<longrightarrow> ?none_before \<and> ?none_after \<and> ?without) \<and> ?before \<and> ?after\<close>)
proof (intro conjI impI)
  assume \<open>autosnapshot c\<close>
  then show ?with_snapshots
    by (simp add: render_def snapshot_before_def snapshot_after_def mark_execution_complete_def)
next
  assume \<open>\<not> autosnapshot c\<close>
  then show ?none_before and ?none_after and ?without
    by (simp_all add: render_def snapshot_before_def snapshot_after_def)
next
  show ?before
    by (rule snapshot_before_emitted)
next
  show ?after
    by (rule snapshot_after_emitted)
qed

theorem snapshot_calls_witness:
  \<open>render indent_one_line kid2_step =
     ''def kid2(CANDIES: int,GREETING: str):'' @
     ''\<newline>    _kale_pipeline_parameters_block = '' @ triple_quote @
     ''\<newline>    CANDIES = {}'' @
     ''\<newline>    GREETING = "{}"'' @
     ''\<newline>    '' @ triple_quote @ ''.format(CANDIES, GREETING)\<newline>'' @
     ''\<newline>    from kale.common import mlmdutils as _kale_mlmdutils'' @
     ''\<newline>    _kale_mlmdutils.init_metadata()\<newline>'' @
     ''\<newline>'' @
     ''\<newline>    from kale.common import podutils as _kale_podutils'' @
     ''\<newline>    _kale_mlmdutils.call("link_input_rok_artifacts")'' @
     ''\<newline>    _kale_podutils.snapshot_pipeline_step('' @
     ''\<newline>        "candybag",'' @
     ''\<newline>        "kid2",'' @
     ''\<newline>        "/home/jovyan/candies.ipynb",'' @
     ''\<newline>        before=True)\<newline>'' @
     ''\<newline>    _kale_data_loading_block = '' @ triple_quote @
     ''\<newline>    # -----------------------DATA LOADING START--------------------------------'' @
     ''\<newline>    from kale.marshal import utils as _kale_marshal_utils'' @
     ''\<newline>    _kale_marshal_utils.set_kale_data_directory("/marshal")'' @
     ''\<newline>    kid1 = _kale_marshal_utils.load("kid1")'' @
     ''\<newline>    # -----------------------DATA LOADING END----------------------------------'' @
     ''\<newline>    '' @ triple_quote @ ''\<newline>'' @
     ''\<newline>    _kale_block1 = '' @ triple_quote @
     ''\<newline>    kid2 = get_handful("Jill", CANDIES - kid1)'' @
     ''\<newline>    '' @ triple_quote @ ''\<newline>'' @
     ''\<newline>    _kale_data_saving_block = '' @ triple_quote @
     ''\<newline>    # -----------------------DATA SAVING START---------------------------------'' @
     ''\<newline>    from kale.marshal import utils as _kale_marshal_utils'' @
     ''\<newline>    _kale_marshal_utils.set_kale_data_directory("/marshal")'' @
     ''\<newline>    _kale_marshal_utils.save(kid2, "kid2")'' @
     ''\<newline>    # -----------------------DATA SAVING END-----------------------------------'' @
     ''\<newline>    '' @ triple_quote @
     ''\<newline>\<newline>'' @
     ''\<newline>    # run the code blocks inside a jupyter kernel'' @
     ''\<newline>    from kale.common.jputils import run_code as _kale_run_code'' @
     ''\<newline>    from kale.common.kfputils import '' @ backslash @
     ''\<newline>        update_uimetadata as _kale_update_uimetadata'' @
     ''\<newline>    _kale_blocks = (_kale_pipeline_parameters_block,_kale_data_loading_block,'' @
     ''\<newline>                    _kale_block1,'' @
     ''\<newline>                    _kale_data_saving_block)'' @
     ''\<newline>    _kale_html_artifact = _kale_run_code(_kale_blocks)'' @
     ''\<newline>    with open("/kid2.html", "w") as f:'' @
     ''\<newline>        f.write(_kale_html_artifact)'' @
     ''\<newline>    _kale_update_uimetadata('' @ single_quote @ ''kid2'' @ single_quote @ '')\<newline>'' @
     ''\<newline>    _rok_snapshot_task = _kale_podutils.snapshot_pipeline_step('' @
     ''\<newline>        "candybag",'' @
     ''\<newline>        "kid2",'' @
     ''\<newline>        "/home/jovyan/candies.ipynb",'' @
     ''\<newline>        before=False)'' @
     ''\<newline>    _kale_mlmdutils.call("submit_output_rok_artifact", _rok_snapshot_task)\<newline>'' @
     ''\<newline>    _kale_mlmdutils.call("mark_execution_complete")''
   \<and> render indent_one_line final_step =
     ''def final_auto_snapshot():'' @
     ''\<newline>    from kale.common import mlmdutils as _kale_mlmdutils'' @
     ''\<newline>    _kale_mlmdutils.init_metadata()\<newline>'' @
     ''\<newline>'' @
     ''\<newline>\<newline>'' @
     ''\<newline>    from kale.common import podutils as _kale_podutils'' @
     ''\<newline>    _kale_mlmdutils.call("link_input_rok_artifacts")'' @
     ''\<newline>    _rok_snapshot_task = _kale_podutils.snapshot_pipeline_step('' @
     ''\<newline>        "candybag",'' @
     ''\<newline>        "final_auto_snapshot",'' @
     ''\<newline>        "/home/jovyan/candies.ipynb",'' @
     ''\<newline>        before=False)'' @
     ''\<newline>    _kale_mlmdutils.call("submit_output_rok_artifact", _rok_snapshot_task)\<newline>'' @
     ''\<newline>    _kale_mlmdutils.call("mark_execution_complete")''
   \<and> snapshot_before idle_step = [] \<and> snapshot_after idle_step = []
   \<and> render indent_one_line idle_step = ''def idle(CANDIES: int):\<newline>    pass\<newline>\<newline>\<newline>''\<close>
  (is \<open>?kid2 \<and> ?final \<and> ?idle_before \<and> ?idle_after \<and> ?idle\<close>)
proof (intro conjI)
  have \<open>autosnapshot kid2_step\<close>
    by (simp add: kid2_step_def)
  with snapshot_calls [of kid2_step indent_one_line] kid2_step_sections
  show ?kid2
    by (simp add: kid2_step_def)
next
  have \<open>autosnapshot final_step\<close>
    by (simp add: final_step_def)
  with snapshot_calls [of final_step indent_one_line] final_step_sections
  show ?final
    by (simp add: final_step_def)
next
  have idle: \<open>\<not> autosnapshot idle_step\<close>
    by (simp add: idle_step_def)
  with snapshot_calls [of idle_step indent_one_line]
  show ?idle_before and ?idle_after
    by simp_all
  from snapshot_calls [of idle_step indent_one_line] idle idle_step_sections
  show ?idle
    by simp
qed

subsection \<open>The metadata calls\<close>

text \<open>
  Claim C5. The emitted code calls \<^verbatim>\<open>_kale_mlmdutils.init_metadata\<close> if and only if it
  calls \<^verbatim>\<open>_kale_mlmdutils.call("mark_execution_complete")\<close>, namely exactly when
  \<open>autosnapshot\<close> is true or one of \<open>in_variables\<close>, \<open>out_variables\<close>, \<open>function_body\<close>
  is not empty. Then the initialisation comes right after the \<^verbatim>\<open>def\<close> line and the
  pipeline-parameters block (there when \<open>parameters_names\<close> is not empty), before
  everything else, and the output ends with the call that marks the execution
  complete. Otherwise the output is the \<^verbatim>\<open>def\<close> line and \<^verbatim>\<open>pass\<close>, with neither call.
\<close>

theorem metadata_calls_bracket_the_body:
  \<open>(init_metadata c \<noteq> [] \<longleftrightarrow> mark_execution_complete c \<noteq> [])
   \<and> (init_metadata c \<noteq> [] \<longleftrightarrow>
        autosnapshot c \<or> in_variables c \<noteq> [] \<or> out_variables c \<noteq> [] \<or> function_body c \<noteq> [])
   \<and> (autosnapshot c \<or> in_variables c \<noteq> [] \<or> out_variables c \<noteq> [] \<or> function_body c \<noteq> [] \<longrightarrow>
        (\<exists>after. render indent c =
           step_signature c @
           (if parameters_names c = [] then [] else kale_pipeline_parameters_block c) @
           (''\<newline>    from kale.common import mlmdutils as _kale_mlmdutils'' @
            ''\<newline>    _kale_mlmdutils.init_metadata()\<newline>'') @
           after)
        \<and> (\<exists>before. render indent c =
           before @ ''\<newline>    _kale_mlmdutils.call("mark_execution_complete")''))
   \<and> (\<not> (autosnapshot c \<or> in_variables c \<noteq> [] \<or> out_variables c \<noteq> [] \<or> function_body c \<noteq> []) \<longrightarrow>
        render indent c = step_signature c @ ''\<newline>    pass\<newline>\<newline>\<newline>'')\<close>
  (is \<open>?together \<and> ?condition \<and> (?busy \<longrightarrow> ?first \<and> ?last) \<and> (_ \<longrightarrow> ?neither)\<close>)
proof (intro conjI impI)
  show ?together
    by (simp only: init_metadata_emitted mark_execution_complete_emitted)
next
  show ?condition
    by (rule init_metadata_emitted)
next
  assume busy: ?busy
  then have \<open>kale_pipeline_parameters_block c =
      (if parameters_names c = [] then [] else kale_pipeline_parameters_block c)\<close>
    by (simp add: parameters_block_absent)
  moreover from busy have \<open>init_metadata c =
      ''\<newline>    from kale.common import mlmdutils as _kale_mlmdutils'' @
      ''\<newline>    _kale_mlmdutils.init_metadata()\<newline>''\<close>
    by (auto simp: init_metadata_def)
  ultimately have \<open>render indent c =
      step_signature c @
      (if parameters_names c = [] then [] else kale_pipeline_parameters_block c) @
      (''\<newline>    from kale.common import mlmdutils as _kale_mlmdutils'' @
       ''\<newline>    _kale_mlmdutils.init_metadata()\<newline>'') @
      (''\<newline>'' @ snapshot_before c @ kale_data_loading_block c @
       kale_code_blocks indent c @ kale_data_saving_block c @ ''\<newline>\<newline>'' @ kale_blocks c @
       snapshot_after c @ mark_execution_complete c)\<close>
    using render_from_init [of indent c] by (simp only:)
  then show ?first
    by blast
next
  assume ?busy
  then have \<open>mark_execution_complete c = ''\<newline>    _kale_mlmdutils.call("mark_execution_complete")''\<close>
    by (auto simp: mark_execution_complete_def)
  from render_until_mark [of indent c, unfolded this]
  show ?last
    by blast
next
  assume \<open>\<not> ?busy\<close>
  then show ?neither
    by (simp add: idle_rendering)
qed

theorem metadata_calls_bracket_the_body_witness:
  \<open>init_metadata kid2_step \<noteq> [] \<and> mark_execution_complete kid2_step \<noteq> []
   \<and> (\<exists>after. render indent_one_line kid2_step =
        ''def kid2(CANDIES: int,GREETING: str):'' @
        (''\<newline>    _kale_pipeline_parameters_block = '' @ triple_quote @
         ''\<newline>    CANDIES = {}'' @
         ''\<newline>    GREETING = "{}"'' @
         ''\<newline>    '' @ triple_quote @ ''.format(CANDIES, GREETING)\<newline>'') @
        (''\<newline>    from kale.common import mlmdutils as _kale_mlmdutils'' @
         ''\<newline>    _kale_mlmdutils.init_metadata()\<newline>'') @
        after)
   \<and> (\<exists>before. render indent_one_line kid2_step =
        before @ ''\<newline>    _kale_mlmdutils.call("mark_execution_complete")'')
   \<and> init_metadata idle_step = [] \<and> mark_execution_complete idle_step = []
   \<and> render indent_one_line idle_step = ''def idle(CANDIES: int):\<newline>    pass\<newline>\<newline>\<newline>''\<close>
proof -
  have busy: \<open>autosnapshot kid2_step\<close> and named: \<open>parameters_names kid2_step \<noteq> []\<close>
    by (simp_all add: kid2_step_def)
  have rest: \<open>\<not> (autosnapshot idle_step \<or> in_variables idle_step \<noteq> [] \<or>
      out_variables idle_step \<noteq> [] \<or> function_body idle_step \<noteq> [])\<close>
    by (simp add: idle_step_def)
  from metadata_calls_bracket_the_body [of kid2_step indent_one_line] busy named
    kid2_step_sections(1,2)
    metadata_calls_bracket_the_body [of idle_step indent_one_line] rest idle_step_sections(1)
  show ?thesis
    by auto
qed

subsection \<open>The \<^verbatim>\<open>pass\<close> branch\<close>

text \<open>
  Claim C8. With \<open>autosnapshot\<close> false and \<open>in_variables\<close>, \<open>out_variables\<close> and
  \<open>function_body\<close> all empty, the rendered function body is the single statement
  \<^verbatim>\<open>pass\<close>, whatever \<open>parameters_names\<close> holds: the output is the \<^verbatim>\<open>def\<close> line, the
  line of \<^verbatim>\<open>pass\<close> and three line breaks, with no pipeline-parameters block, no
  marshalling code and no metadata call.
\<close>

theorem idle_step_body_is_pass:
  \<open>\<not> autosnapshot c \<and> in_variables c = [] \<and> out_variables c = [] \<and> function_body c = [] \<longrightarrow>
   render indent c = step_signature c @ ''\<newline>    pass'' @ ''\<newline>\<newline>\<newline>''\<close>
  by (simp add: idle_rendering)

theorem idle_step_body_is_pass_witness:
  \<open>render indent_one_line idle_step = ''def idle(CANDIES: int):\<newline>    pass\<newline>\<newline>\<newline>''\<close>
  using idle_step_body_is_pass [of idle_step indent_one_line] idle_step_sections(1)
  by (simp add: idle_step_def)

subsection \<open>The pipeline-parameters block\<close>

text \<open>
  Claim C9. In the pipeline-parameters block, emitted when \<open>parameters_names\<close> is not
  empty and the condition of the \<^verbatim>\<open>pass\<close> branch does not hold, a parameter whose entry
  in \<open>parameters_types\<close> is \<^verbatim>\<open>str\<close> is assigned its value in double quotes, a parameter
  of any other type its value unquoted, and the \<^verbatim>\<open>format\<close> call receives the
  \<open>parameters_names\<close>, joined in order.
\<close>

theorem pipeline_parameters_quoting:
  \<open>(autosnapshot c \<or> in_variables c \<noteq> [] \<or> out_variables c \<noteq> [] \<or> function_body c \<noteq> []) \<and>
   parameters_names c \<noteq> [] \<longrightarrow>
   (\<exists>after. render indent c =
      step_signature c @
     (''\<newline>    _kale_pipeline_parameters_block = '' @ triple_quote @
      concat (map (\<lambda>i. ''\<newline>    '' @ parameters_names c ! i @
                     (if i < length (parameters_types c) \<and> parameters_types c ! i = ''str''
                      then '' = "{}"'' else '' = {}''))
        [0..<length (parameters_names c)]) @
      ''\<newline>    '' @ triple_quote @ ''.format('' @
      join_filter '', '' (parameters_names c) @ '')\<newline>'') @
      after)
   \<and> (length (parameters_names c) \<le> length (parameters_types c) \<longrightarrow>
      (\<exists>after. render indent c =
         step_signature c @
        (''\<newline>    _kale_pipeline_parameters_block = '' @ triple_quote @
         concat (map (\<lambda>(arg, type). ''\<newline>    '' @ arg @
                        (if type = ''str'' then '' = "{}"'' else '' = {}''))
           (zip (parameters_names c) (parameters_types c))) @
         ''\<newline>    '' @ triple_quote @ ''.format('' @
         join_filter '', '' (parameters_names c) @ '')\<newline>'') @
         after))\<close>
  (is \<open>?busy \<and> ?named \<longrightarrow> ?by_index \<and> (?typed \<longrightarrow> ?by_pair)\<close>)
proof (intro impI, elim conjE)
  assume ?busy and ?named
  note shape = render_from_parameters [of indent c,
      unfolded parameters_block_text [OF \<open>?busy\<close> \<open>?named\<close>]]
  show \<open>?by_index \<and> (?typed \<longrightarrow> ?by_pair)\<close>
  proof (intro conjI impI)
    from shape show ?by_index
      by blast
  next
    assume ?typed
    from shape [unfolded parameters_zip [OF this]] show ?by_pair
      by blast
  qed
qed

theorem pipeline_parameters_quoting_witness:
  \<open>\<exists>after. render indent_one_line kid2_step =
      ''def kid2(CANDIES: int,GREETING: str):'' @
     (''\<newline>    _kale_pipeline_parameters_block = '' @ triple_quote @
      ''\<newline>    CANDIES = {}'' @
      ''\<newline>    GREETING = "{}"'' @
      ''\<newline>    '' @ triple_quote @ ''.format(CANDIES, GREETING)\<newline>'') @
      after\<close>
  using pipeline_parameters_quoting [of kid2_step indent_one_line] kid2_step_sections(1)
  by (simp add: kid2_step_def)

section \<open>Properties of the tutorial notebook\<close>

lemma code_cells_of_notebook:
  \<open>code_cells cells =
    [\<lparr>cell_type = Code, metadata_tags = Some [''imports'']\<rparr>,
     \<lparr>cell_type = Code, metadata_tags = Some [''pipeline-parameters'']\<rparr>,
     \<lparr>cell_type = Code, metadata_tags = Some [''functions'']\<rparr>,
     \<lparr>cell_type = Code, metadata_tags = Some [''block:sack'']\<rparr>,
     \<lparr>cell_type = Code, metadata_tags = Some [''block:kid1'', ''prev:sack'']\<rparr>,
     \<lparr>cell_type = Code, metadata_tags = Some [''block:kid2'', ''prev:kid1'']\<rparr>,
     \<lparr>cell_type = Code, metadata_tags = Some [''block:kid3'', ''prev:kid2'']\<rparr>,
     \<lparr>cell_type = Code, metadata_tags = None\<rparr>]\<close>
  by (simp add: code_cells_def cells_def)

lemma tags_read:
  \<open>read_tag ''imports'' = Some Imports\<close>
  \<open>read_tag ''pipeline-parameters'' = Some Pipeline_Parameters\<close>
  \<open>read_tag ''functions'' = Some Functions\<close>
  \<open>read_tag ''block:sack'' = Some (Block ''sack'')\<close>
  \<open>read_tag ''block:kid1'' = Some (Block ''kid1'')\<close>
  \<open>read_tag ''block:kid2'' = Some (Block ''kid2'')\<close>
  \<open>read_tag ''block:kid3'' = Some (Block ''kid3'')\<close>
  \<open>read_tag ''prev:sack'' = Some (Prev ''sack'')\<close>
  \<open>read_tag ''prev:kid1'' = Some (Prev ''kid1'')\<close>
  \<open>read_tag ''prev:kid2'' = Some (Prev ''kid2'')\<close>
  by (simp_all add: read_tag_def named_def)

text \<open>
  Claim C7. Every tag of a code cell of the tutorial notebook has one of the five
  shapes \<^verbatim>\<open>imports\<close>, \<^verbatim>\<open>pipeline-parameters\<close>, \<^verbatim>\<open>functions\<close>, \<^verbatim>\<open>block:<name>\<close> and
  \<^verbatim>\<open>prev:<name>\<close>; read cell by cell, the tags are those listed.
\<close>

theorem notebook_tags_well_shaped:
  \<open>list_all (\<lambda>c. list_all well_shaped (tags_of c)) (code_cells cells)
   \<and> map (\<lambda>c. map read_tag (tags_of c)) (code_cells cells) =
       [[Some Imports],
        [Some Pipeline_Parameters],
        [Some Functions],
        [Some (Block ''sack'')],
        [Some (Block ''kid1''), Some (Prev ''sack'')],
        [Some (Block ''kid2''), Some (Prev ''kid1'')],
        [Some (Block ''kid3''), Some (Prev ''kid2'')],
        []]\<close>
  by (simp add: code_cells_of_notebook well_shaped_def tags_read)

lemma notebook_block_names:
  \<open>map block_names (code_cells cells) =
     [[], [], [], [''sack''], [''kid1''], [''kid2''], [''kid3''], []]\<close>
  by (simp add: code_cells_of_notebook block_names_def List.map_filter_simps named_def)

lemma notebook_prev_names:
  \<open>map prev_names (code_cells cells) =
     [[], [], [], [], [''sack''], [''kid1''], [''kid2''], []]\<close>
  by (simp add: code_cells_of_notebook prev_names_def List.map_filter_simps named_def)

lemma notebook_dependencies:
  \<open>dependencies (code_cells cells) =
     [(''kid1'', ''sack''), (''kid2'', ''kid1''), (''kid3'', ''kid2'')]\<close>
proof -
  have \<open>dependencies cs =
      concat (map (\<lambda>(bs, ps). List.product bs ps) (zip (map block_names cs) (map prev_names cs)))\<close>
    for cs
    by (simp add: dependencies_def zip_map_map zip_same_conv_map comp_def)
  then show ?thesis
    by (simp add: notebook_block_names notebook_prev_names)
qed

text \<open>
  Claim C10. In the tutorial notebook every \<^verbatim>\<open>prev:<name>\<close> tag names a step that a
  \<^verbatim>\<open>block:<name>\<close> tag of an earlier code cell declares. The steps are declared in
  the order sack, kid1, kid2, kid3; kid1 depends on sack, kid2 on kid1 and kid3 on
  kid2, and these dependencies have no cycle.
\<close>

theorem notebook_dependencies_point_backwards:
  \<open>declared_before [] (code_cells cells)
   \<and> concat (map block_names (code_cells cells)) = [''sack'', ''kid1'', ''kid2'', ''kid3'']
   \<and> dependencies (code_cells cells) =
       [(''kid1'', ''sack''), (''kid2'', ''kid1''), (''kid3'', ''kid2'')]
   \<and> acyclic (set (dependencies (code_cells cells)))\<close>
proof (intro conjI)
  show \<open>declared_before [] (code_cells cells)\<close>
    by (simp add: code_cells_of_notebook block_names_def prev_names_def
        List.map_filter_simps named_def)
next
  show \<open>concat (map block_names (code_cells cells)) = [''sack'', ''kid1'', ''kid2'', ''kid3'']\<close>
    by (simp add: notebook_block_names)
next
  show \<open>dependencies (code_cells cells) =
       [(''kid1'', ''sack''), (''kid2'', ''kid1''), (''kid3'', ''kid2'')]\<close>
    by (rule notebook_dependencies)
next
  define rank :: \<open>string \<Rightarrow> nat\<close> where
    \<open>rank s = (if s = ''sack'' then 0 else if s = ''kid1'' then 1 else if s = ''kid2'' then 2 else 3)\<close>
    for s
  have \<open>rank b < rank a\<close> if \<open>(a, b) \<in> set (dependencies (code_cells cells))\<close> for a b
    using that by (auto simp: notebook_dependencies rank_def)
  then show \<open>acyclic (set (dependencies (code_cells cells)))\<close>
    by (rule acyclicI_order)
qed

end
